theory Spec2Isabelle
  imports Complex_Main
begin

section \<open>JavaScript values and tables\<close>

text \<open>
  The formula context of \<^verbatim>\<open>apps/dg/formula/formula_context.js\<close> is untyped JavaScript.
  Values are modelled by the datatype below. A finite number is the rational it denotes
  (no arithmetic on numbers is modelled); a function value is named by an identifier and
  is applied by the host (see \<open>host\<close>); an object is the list of the properties a
  property read \<^verbatim>\<open>obj[k]\<close> can see, the first entry of a key winning.
\<close>

datatype jsval =
    JUndefined
  | JNull
  | JBool bool
  | JNum rat
  | JStr string
  | JFun string
  | JObj "(string \<times> jsval) list"

type_synonym table = "(string \<times> jsval) list"

text \<open>Truthiness, as used by \<^verbatim>\<open>a && b\<close> and \<^verbatim>\<open>if (a)\<close>.\<close>

fun truthy :: "jsval \<Rightarrow> bool" where
  "truthy JUndefined = False"
| "truthy JNull = False"
| "truthy (JBool b) = b"
| "truthy (JNum r) = (r \<noteq> 0)"
| "truthy (JStr s) = (s \<noteq> [])"
| "truthy (JFun f) = True"
| "truthy (JObj ps) = True"

text \<open>The property read \<^verbatim>\<open>t[k]\<close> on an object: a missing key reads as \<^verbatim>\<open>undefined\<close>.\<close>

definition getProp :: "table \<Rightarrow> string \<Rightarrow> jsval" where
  "getProp t k = (case map_of t k of None \<Rightarrow> JUndefined | Some v \<Rightarrow> v)"

text \<open>
  The property read \<^verbatim>\<open>v[k]\<close> on a value that is neither \<^verbatim>\<open>undefined\<close> nor \<^verbatim>\<open>null\<close>.
  Properties of the wrappers of primitive values and of function objects are not modelled:
  they read as \<^verbatim>\<open>undefined\<close> here.
\<close>

fun jsget :: "jsval \<Rightarrow> string \<Rightarrow> jsval" where
  "jsget (JObj ps) k = getProp ps k"
| "jsget v k = JUndefined"

text \<open>\<^verbatim>\<open>typeof v === 'function'\<close>\<close>

fun isFunction :: "jsval \<Rightarrow> bool" where
  "isFunction (JFun f) = True"
| "isFunction v = False"

text \<open>The name \<^verbatim>\<open>'\<pi>'\<close> (U+03C0), as the two bytes of its UTF-8 encoding.\<close>

definition pi_name :: string where
  "pi_name = [CHR 0xCF, CHR 0x80]"

section \<open>Function metadata, dependencies, errors\<close>

text \<open>
  An entry of \<^verbatim>\<open>_fnsProps\<close>, \<^verbatim>\<open>_MathFnProps\<close> or the client's \<^verbatim>\<open>fnsProps\<close>.
  \<^verbatim>\<open>maxArgs\<close> is a number, or \<^verbatim>\<open>'n'\<close> in the entries the source comments out.
  An absent \<^verbatim>\<open>isRandom\<close> is falsy.
\<close>

datatype maxargs = MaxArgs int | MaxArgsN

record FunctionSpec =
  minArgs :: int
  maxArgs :: maxargs
  isRandom :: bool
  category :: string

type_synonym props = "(string \<times> FunctionSpec) list"

text \<open>
  Modelled from the spec: the constants \<^verbatim>\<open>DG.DEP_TYPE_UNDEFINED\<close> and
  \<^verbatim>\<open>DG.DEP_TYPE_SPECIAL\<close> are declared outside the source files at hand; the spec names
  the dependency types an enumeration with the members Unresolved, Special, Attribute.
\<close>

datatype DepType = DEP_TYPE_UNDEFINED | DEP_TYPE_SPECIAL | DEP_TYPE_ATTRIBUTE

record DependencySpec =
  spec_type :: DepType
  spec_id :: string
  spec_name :: string

text \<open>
  The object literal handed to \<^verbatim>\<open>registerDependency\<close>. \<^verbatim>\<open>compileVariable\<close> leaves
  \<^verbatim>\<open>aggFnIndices\<close> out (\<open>None\<close>); \<^verbatim>\<open>compileFunction\<close> passes its argument on.
\<close>

record Dependency =
  independentSpec :: DependencySpec
  aggFnIndices :: "int list option"

text \<open>
  Modelled from the spec: the error classes \<^verbatim>\<open>DG.VarReferenceError\<close>,
  \<^verbatim>\<open>DG.FuncReferenceError\<close> and \<^verbatim>\<open>DG.FuncArgsError\<close> are defined outside the source files
  at hand; by the spec each carries the value it was constructed with (the offending name
  and, for the arity error, the violated bounds). The remaining constructors are the
  engine's own errors: a read of an undeclared identifier, a property read on
  \<^verbatim>\<open>undefined\<close> or \<^verbatim>\<open>null\<close>, and an invalid array length.
\<close>

datatype error =
    VarReferenceError jsval
  | FuncReferenceError jsval
  | FuncArgsError string FunctionSpec
  | ReferenceError string
  | TypeError
  | RangeError

section \<open>The formula context\<close>

record FunctionContext =
  name :: string
  isAggregate :: bool

text \<open>
  The state of a \<^verbatim>\<open>DG.FormulaContext\<close>. A leading underscore of the source is written
  \<open>x_\<close>. A table property that is absent (or otherwise falsy) is \<open>None\<close>: the source uses
  these properties only behind a guard \<^verbatim>\<open>t && ...\<close>.

  The hook \<^verbatim>\<open>registerDependency\<close> has an empty body in this class, and \<^verbatim>\<open>DG.logError\<close>
  is defined elsewhere; \<open>registered\<close> and \<open>logged\<close> are the traces of the calls made to
  them, in order.
\<close>

record FormulaContext =
  x_functionContextStack :: "FunctionContext list"
  eVars :: "table option"
  vars :: "table option"
  x_fns :: "table option"
  x_fnsProps :: "props option"
  x_MathFnProps :: "props option"
  fns :: "table option"
  fnsProps :: "props option"
  registered :: "Dependency list"
  logged :: "string list"

definition registerDependency :: "FormulaContext \<Rightarrow> Dependency \<Rightarrow> FormulaContext" where
  "registerDependency ctx iDependency = ctx\<lparr>registered := registered ctx @ [iDependency]\<rparr>"

definition logError :: "FormulaContext \<Rightarrow> string \<Rightarrow> FormulaContext" where
  "logError ctx msg = ctx\<lparr>logged := logged ctx @ [msg]\<rparr>"

subsection \<open>The function context stack\<close>

text \<open>\<^verbatim>\<open>init\<close>: the stack starts empty.\<close>

definition init :: "FormulaContext \<Rightarrow> FormulaContext" where
  "init ctx = ctx\<lparr>x_functionContextStack := []\<rparr>"

text \<open>\<^verbatim>\<open>Array.prototype.push\<close> appends: the top of the stack is the last element.\<close>

definition beginFunctionContext :: "FormulaContext \<Rightarrow> FunctionContext \<Rightarrow> FormulaContext" where
  "beginFunctionContext ctx iFunctionContext =
     ctx\<lparr>x_functionContextStack := x_functionContextStack ctx @ [iFunctionContext]\<rparr>"

text \<open>
  \<^verbatim>\<open>-- array.length\<close>: writing the length \<open>n - 1\<close> drops the last element; on the empty
  array the new length is \<open>-1\<close>, for which the engine throws a RangeError.
\<close>

definition decrementLength :: "'a list \<Rightarrow> error + 'a list" where
  "decrementLength xs =
     (if int (length xs) - 1 < 0 then Inl RangeError else Inr (take (length xs - 1) xs))"

text \<open>
  \<^verbatim>\<open>iFunctionContext && iFunctionContext.name\<close>: for an absent context the value is the
  falsy argument itself, which is never \<^verbatim>\<open>===\<close> to a string (\<open>None\<close>).
\<close>

definition endName :: "FunctionContext option \<Rightarrow> string option" where
  "endName iFunctionContext =
     (case iFunctionContext of None \<Rightarrow> None | Some fc \<Rightarrow> Some (name fc))"

definition topName :: "FunctionContext list \<Rightarrow> string" where
  "topName stack =
     (let stackSize = length stack
      in if stackSize \<noteq> 0 then name (stack ! (stackSize - 1)) else '''')"

definition endFunctionContext ::
  "FormulaContext \<Rightarrow> FunctionContext option \<Rightarrow> (error + unit) \<times> FormulaContext" where
  "endFunctionContext ctx iFunctionContext =
     (if endName iFunctionContext = Some (topName (x_functionContextStack ctx)) then
        (case decrementLength (x_functionContextStack ctx) of
           Inl err \<Rightarrow> (Inl err, ctx)
         | Inr st \<Rightarrow> (Inr (), ctx\<lparr>x_functionContextStack := st\<rparr>))
      else
        (Inr (), logError ctx
           ''Error: DG.FormulaContext.endFunctionContext -- attempt to end incorrect function context''))"

text \<open>Sequences of calls: begin each context of a list in order; end each in order,
  stopping at the first call that throws.\<close>

fun beginAll :: "FormulaContext \<Rightarrow> FunctionContext list \<Rightarrow> FormulaContext" where
  "beginAll ctx [] = ctx"
| "beginAll ctx (b # bs) = beginAll (beginFunctionContext ctx b) bs"

fun endAll ::
  "FormulaContext \<Rightarrow> FunctionContext option list \<Rightarrow> (error + unit) \<times> FormulaContext" where
  "endAll ctx [] = (Inr (), ctx)"
| "endAll ctx (e # es) =
     (case endFunctionContext ctx e of
        (Inl err, ctx') \<Rightarrow> (Inl err, ctx')
      | (Inr u, ctx') \<Rightarrow> endAll ctx' es)"

subsection \<open>The host\<close>

text \<open>
  What the JavaScript engine provides: the global \<^verbatim>\<open>Math\<close> object, the other global
  bindings an identifier of emitted code can resolve to, and the application
  \<^verbatim>\<open>f.apply(thisArg, args)\<close> of a function value, which returns a value or throws. The
  bodies of the functions in \<^verbatim>\<open>_fns\<close> are floating-point computations and are left to
  \<open>call\<close>.
\<close>

record host =
  Math :: table
  globals :: table
  call :: "jsval \<Rightarrow> jsval \<Rightarrow> jsval list \<Rightarrow> error + jsval"

subsection \<open>Variables\<close>

text \<open>\<^verbatim>\<open>t && (t[iName] !== undefined)\<close>\<close>

definition definedIn :: "table option \<Rightarrow> string \<Rightarrow> bool" where
  "definedIn t iName =
     (case t of None \<Rightarrow> False | Some tab \<Rightarrow> getProp tab iName \<noteq> JUndefined)"

text \<open>
  \<^verbatim>\<open>compileVariable\<close> returns JavaScript text; the name is concatenated into it as it is.
  The function has no \<^verbatim>\<open>throw\<close>; it returns the text and the context after the call.
\<close>

definition compileVariable :: "FormulaContext \<Rightarrow> string \<Rightarrow> string \<times> FormulaContext" where
  "compileVariable ctx iName =
     (if iName = ''pi'' \<or> iName = pi_name then (''Math.PI'', ctx)
      else if iName = ''e'' then (''Math.E'', ctx)
      else if definedIn (eVars ctx) iName then (''e.'' @ iName, ctx)
      else if definedIn (vars ctx) iName then (''c.vars.'' @ iName, ctx)
      else
        (''(function(){throw new DG.VarReferenceError('' @ iName @ '');})()'',
         registerDependency ctx
           \<lparr>independentSpec =
              \<lparr>spec_type = DEP_TYPE_UNDEFINED, spec_id = iName, spec_name = iName\<rparr>,
            aggFnIndices = None\<rparr>))"

text \<open>
  \<^verbatim>\<open>iEvalContext && iEvalContext[iName]\<close> is the left operand itself when that is falsy.
\<close>

definition evaluateVariable ::
  "FormulaContext \<Rightarrow> host \<Rightarrow> string \<Rightarrow> jsval \<Rightarrow> (error + jsval) \<times> FormulaContext" where
  "evaluateVariable ctx h iName iEvalContext =
     (if iName = ''pi'' \<or> iName = pi_name then (Inr (getProp (Math h) ''PI''), ctx)
      else if iName = ''e'' then (Inr (getProp (Math h) ''E''), ctx)
      else
        (let eValue = (if truthy iEvalContext then jsget iEvalContext iName else iEvalContext)
         in if eValue \<noteq> JUndefined then (Inr eValue, ctx)
            else
              (case vars ctx of
                 None \<Rightarrow> (Inl (VarReferenceError (JStr iName)), ctx)
               | Some tab \<Rightarrow>
                   if getProp tab iName \<noteq> JUndefined then (Inr (getProp tab iName), ctx)
                   else (Inl (VarReferenceError (JStr iName)), ctx))))"

subsection \<open>Functions\<close>

definition checkArgs :: "string \<Rightarrow> 'a list \<Rightarrow> props option \<Rightarrow> error + unit" where
  "checkArgs iName iArgs iArgSpecs =
     (case iArgSpecs of
        None \<Rightarrow> Inr ()
      | Some specs \<Rightarrow>
          (case map_of specs iName of
             None \<Rightarrow> Inr ()
           | Some fArgs \<Rightarrow>
               if int (length iArgs) < minArgs fArgs then Inl (FuncArgsError iName fArgs)
               else Inr ()))"

text \<open>
  The closure \<^verbatim>\<open>checkArgsAndRandom\<close> of \<^verbatim>\<open>compileFunction\<close>; it reads \<^verbatim>\<open>this\<close>,
  \<^verbatim>\<open>iArgs\<close> and \<^verbatim>\<open>iAggFnIndices\<close> of the enclosing call, which are the first three
  arguments here. Its second parameter is unused in the source and left out.
\<close>

definition checkArgsAndRandom ::
  "FormulaContext \<Rightarrow> string list \<Rightarrow> int list \<Rightarrow> string \<Rightarrow> props option
     \<Rightarrow> (error + unit) \<times> FormulaContext" where
  "checkArgsAndRandom ctx iArgs iAggFnIndices iName iFnPropsMap =
     (let fnProps = (case iFnPropsMap of None \<Rightarrow> None | Some m \<Rightarrow> map_of m iName);
          isRandomFlag = (case fnProps of None \<Rightarrow> False | Some p \<Rightarrow> isRandom p)
      in case checkArgs iName iArgs iFnPropsMap of
           Inl err \<Rightarrow> (Inl err, ctx)
         | Inr u \<Rightarrow>
             (Inr (),
              if isRandomFlag then
                registerDependency ctx
                  \<lparr>independentSpec =
                     \<lparr>spec_type = DEP_TYPE_SPECIAL, spec_id = ''random'', spec_name = ''random''\<rparr>,
                   aggFnIndices = Some iAggFnIndices\<rparr>
              else ctx))"

text \<open>\<^verbatim>\<open>'(' + iArgs + ')'\<close>: an array is converted to a string by joining with commas.\<close>

fun joinComma :: "string list \<Rightarrow> string" where
  "joinComma [] = []"
| "joinComma [a] = a"
| "joinComma (a # b # rest) = a @ '','' @ joinComma (b # rest)"

text \<open>\<^verbatim>\<open>t && typeof t[iName] === 'function'\<close>\<close>

definition hasFunction :: "table option \<Rightarrow> string \<Rightarrow> bool" where
  "hasFunction t iName =
     (case t of None \<Rightarrow> False | Some tab \<Rightarrow> isFunction (getProp tab iName))"

text \<open>The table behind a guard that has found it present.\<close>

definition tableOf :: "table option \<Rightarrow> table" where
  "tableOf t = (case t of None \<Rightarrow> [] | Some tab \<Rightarrow> tab)"

definition compileFunction ::
  "FormulaContext \<Rightarrow> host \<Rightarrow> string \<Rightarrow> string list \<Rightarrow> int list
     \<Rightarrow> (error + string) \<times> FormulaContext" where
  "compileFunction ctx h iName iArgs iAggFnIndices =
     (if hasFunction (x_fns ctx) iName then
        (case checkArgsAndRandom ctx iArgs iAggFnIndices iName (x_fnsProps ctx) of
           (Inl err, ctx') \<Rightarrow> (Inl err, ctx')
         | (Inr u, ctx') \<Rightarrow>
             (Inr (''c._fns.'' @ iName @ ''('' @ joinComma iArgs @ '')''), ctx'))
      else if isFunction (getProp (Math h) iName) then
        (case checkArgsAndRandom ctx iArgs iAggFnIndices iName (x_MathFnProps ctx) of
           (Inl err, ctx') \<Rightarrow> (Inl err, ctx')
         | (Inr u, ctx') \<Rightarrow>
             (Inr (''Math.'' @ iName @ ''('' @ joinComma iArgs @ '')''), ctx'))
      else if hasFunction (fns ctx) iName then
        (case checkArgsAndRandom ctx iArgs iAggFnIndices iName (fnsProps ctx) of
           (Inl err, ctx') \<Rightarrow> (Inl err, ctx')
         | (Inr u, ctx') \<Rightarrow>
             (Inr (''c.fns.'' @ iName @ ''('' @ joinComma iArgs @ '')''), ctx'))
      else
        (Inr (''(function(){throw new DG.FuncReferenceError('' @ iName @ '');})()''), ctx))"

text \<open>
  \<^verbatim>\<open>evaluateFunction\<close> applies the function it finds, with the table it was found in as
  \<^verbatim>\<open>this\<close>; what the function returns or throws is the host's \<open>call\<close>. The function is
  not handed the context, and the context is returned as it was.
\<close>

definition evaluateFunction ::
  "FormulaContext \<Rightarrow> host \<Rightarrow> string \<Rightarrow> jsval list \<Rightarrow> (error + jsval) \<times> FormulaContext" where
  "evaluateFunction ctx h iName iArgs =
     (if hasFunction (x_fns ctx) iName then
        (case checkArgs iName iArgs (x_fnsProps ctx) of
           Inl err \<Rightarrow> (Inl err, ctx)
         | Inr u \<Rightarrow>
             (call h (getProp (tableOf (x_fns ctx)) iName) (JObj (tableOf (x_fns ctx))) iArgs,
              ctx))
      else if isFunction (getProp (Math h) iName) then
        (case checkArgs iName iArgs (x_MathFnProps ctx) of
           Inl err \<Rightarrow> (Inl err, ctx)
         | Inr u \<Rightarrow> (call h (getProp (Math h) iName) (JObj (Math h)) iArgs, ctx))
      else if hasFunction (fns ctx) iName then
        (case checkArgs iName iArgs (fnsProps ctx) of
           Inl err \<Rightarrow> (Inl err, ctx)
         | Inr u \<Rightarrow>
             (call h (getProp (tableOf (fns ctx)) iName) (JObj (tableOf (fns ctx))) iArgs,
              ctx))
      else (Inl (FuncReferenceError (JStr iName)), ctx))"

section \<open>Emitted code and its invocation\<close>

text \<open>
  \<^verbatim>\<open>createContextFunction\<close> hands the emitted text to the engine:
  \<^verbatim>\<open>new Function('c', 'e', 'return ' + iExpression)\<close>. The engine is modelled for the
  texts \<^verbatim>\<open>compileVariable\<close> emits: a dotted path \<^verbatim>\<open>a.b.c\<close> of identifiers, and the
  immediately invoked \<^verbatim>\<open>(function(){throw new DG.XError(arg);})()\<close> with a dotted path
  as argument. Any other text is outside the model (\<open>None\<close>).

  In such text a bare word is an identifier reference, not a string literal. Reserved
  words, the literals \<^verbatim>\<open>null\<close>, \<^verbatim>\<open>true\<close>, \<^verbatim>\<open>false\<close>, the name \<^verbatim>\<open>arguments\<close> that every
  function body binds and the global value properties \<^verbatim>\<open>undefined\<close>, \<^verbatim>\<open>NaN\<close>,
  \<^verbatim>\<open>Infinity\<close> are left outside the model, as are names with characters other than
  ASCII letters, digits, \<^verbatim>\<open>_\<close> and \<^verbatim>\<open>$\<close>.
\<close>

datatype errorClass = VarReferenceErrorClass | FuncReferenceErrorClass

datatype jsexpr =
    EIdent string
  | EMember jsexpr string
  | EThrowNew errorClass jsexpr

definition identStart :: "char \<Rightarrow> bool" where
  "identStart ch = (ch \<in> set ''abcdefghijklmnopqrstuvwxyzABCDEFGHIJKLMNOPQRSTUVWXYZ_$'')"

definition identPart :: "char \<Rightarrow> bool" where
  "identPart ch = (identStart ch \<or> ch \<in> set ''0123456789'')"

definition isIdentifierName :: "string \<Rightarrow> bool" where
  "isIdentifierName s =
     (case s of [] \<Rightarrow> False | ch # cs \<Rightarrow> identStart ch \<and> list_all identPart cs)"

definition notReferences :: "string list" where
  "notReferences =
     [''break'', ''case'', ''catch'', ''continue'', ''debugger'', ''default'', ''delete'',
      ''do'', ''else'', ''finally'', ''for'', ''function'', ''if'', ''in'', ''instanceof'',
      ''new'', ''return'', ''switch'', ''this'', ''throw'', ''try'', ''typeof'', ''var'',
      ''void'', ''while'', ''with'', ''class'', ''const'', ''enum'', ''export'', ''extends'',
      ''import'', ''super'', ''implements'', ''interface'', ''let'', ''package'', ''private'',
      ''protected'', ''public'', ''static'', ''yield'', ''await'', ''null'', ''true'',
      ''false'', ''arguments'', ''undefined'', ''NaN'', ''Infinity'']"

definition isIdentifierReference :: "string \<Rightarrow> bool" where
  "isIdentifierReference s = (isIdentifierName s \<and> s \<notin> set notReferences)"

fun splitOn :: "char \<Rightarrow> string \<Rightarrow> string list" where
  "splitOn d [] = [[]]"
| "splitOn d (ch # cs) =
     (if ch = d then [] # splitOn d cs
      else (case splitOn d cs of [] \<Rightarrow> [[ch]] | w # ws \<Rightarrow> (ch # w) # ws))"

definition parsePath :: "string \<Rightarrow> jsexpr option" where
  "parsePath s =
     (case splitOn CHR ''.'' s of
        [] \<Rightarrow> None
      | x # ps \<Rightarrow>
          if isIdentifierReference x \<and> list_all isIdentifierName ps
          then Some (foldl EMember (EIdent x) ps)
          else None)"

definition throwPrefix :: string where
  "throwPrefix = ''(function(){throw new ''"

definition throwSuffix :: string where
  "throwSuffix = '');})()''"

definition parseErrorClass :: "string \<Rightarrow> errorClass option" where
  "parseErrorClass s =
     (if s = ''DG.VarReferenceError'' then Some VarReferenceErrorClass
      else if s = ''DG.FuncReferenceError'' then Some FuncReferenceErrorClass
      else None)"

definition parseExpression :: "string \<Rightarrow> jsexpr option" where
  "parseExpression s =
     (if length throwPrefix + length throwSuffix \<le> length s
         \<and> take (length throwPrefix) s = throwPrefix
         \<and> drop (length s - length throwSuffix) s = throwSuffix
      then
        (let inner = take (length s - length throwPrefix - length throwSuffix)
                       (drop (length throwPrefix) s);
             ctor = takeWhile (\<lambda>ch. ch \<noteq> CHR ''('') inner;
             rest = dropWhile (\<lambda>ch. ch \<noteq> CHR ''('') inner
         in case rest of
              [] \<Rightarrow> None
            | paren # argText \<Rightarrow>
                (case parseErrorClass ctor of
                   None \<Rightarrow> None
                 | Some cls \<Rightarrow>
                     (case parsePath argText of
                        None \<Rightarrow> None
                      | Some a \<Rightarrow> Some (EThrowNew cls a))))
      else parsePath s)"

definition parseFunctionBody :: "string \<Rightarrow> jsexpr option" where
  "parseFunctionBody body =
     (if take 7 body = ''return '' then parseExpression (drop 7 body) else None)"

definition createContextFunction :: "string \<Rightarrow> jsexpr option" where
  "createContextFunction iExpression = parseFunctionBody (''return '' @ iExpression)"

text \<open>
  The value of an expression of the body when the function is applied to \<open>c\<close> and \<open>e\<close>.
  An identifier is one of the two parameters, or else a global; reading an undeclared
  identifier throws a ReferenceError. A property read on \<^verbatim>\<open>undefined\<close> or \<^verbatim>\<open>null\<close>
  throws a TypeError. The argument of \<^verbatim>\<open>new\<close> is evaluated before the error object is
  built and thrown; \<^verbatim>\<open>DG\<close> is the application's namespace.
\<close>

fun evalExpr :: "host \<Rightarrow> jsval \<Rightarrow> jsval \<Rightarrow> jsexpr \<Rightarrow> error + jsval" where
  "evalExpr h c e (EIdent x) =
     (if x = ''c'' then Inr c
      else if x = ''e'' then Inr e
      else if x = ''Math'' then Inr (JObj (Math h))
      else (case map_of (globals h) x of
              None \<Rightarrow> Inl (ReferenceError x)
            | Some v \<Rightarrow> Inr v))"
| "evalExpr h c e (EMember obj p) =
     (case evalExpr h c e obj of
        Inl err \<Rightarrow> Inl err
      | Inr v \<Rightarrow> if v = JUndefined \<or> v = JNull then Inl TypeError else Inr (jsget v p))"
| "evalExpr h c e (EThrowNew cls arg) =
     (case evalExpr h c e arg of
        Inl err \<Rightarrow> Inl err
      | Inr v \<Rightarrow>
          (case cls of
             VarReferenceErrorClass \<Rightarrow> Inl (VarReferenceError v)
           | FuncReferenceErrorClass \<Rightarrow> Inl (FuncReferenceError v)))"

text \<open>Compile-then-invoke: build the function from the text and apply it to \<open>c\<close>, \<open>e\<close>.\<close>

definition invokeCompiled :: "host \<Rightarrow> string \<Rightarrow> jsval \<Rightarrow> jsval \<Rightarrow> (error + jsval) option" where
  "invokeCompiled h iExpression c e =
     (case createContextFunction iExpression of
        None \<Rightarrow> None
      | Some body \<Rightarrow> Some (evalExpr h c e body))"

section \<open>The tables of the prototype\<close>

text \<open>
  The own properties of \<^verbatim>\<open>_fns\<close>, \<^verbatim>\<open>_fnsProps\<close> and \<^verbatim>\<open>_MathFnProps\<close> as the source
  declares them. Note that \<^verbatim>\<open>isFinite\<close> is in \<^verbatim>\<open>_fns\<close> and not in \<^verbatim>\<open>_fnsProps\<close>.
  The properties these object literals inherit from \<^verbatim>\<open>Object.prototype\<close> are not listed.
\<close>

definition proto_fns :: table where
  "proto_fns =
     [(''boolean'', JFun ''_fns.boolean''),
      (''frac'', JFun ''_fns.frac''),
      (''isFinite'', JFun ''_fns.isFinite''),
      (''ln'', JFun ''_fns.ln''),
      (''log'', JFun ''_fns.log''),
      (''number'', JFun ''_fns.number''),
      (''random'', JFun ''_fns.random''),
      (''round'', JFun ''_fns.round''),
      (''string'', JFun ''_fns.string''),
      (''trunc'', JFun ''_fns.trunc''),
      (''greatCircleDistance'', JFun ''_fns.greatCircleDistance''),
      (''secondsToDate'', JFun ''_fns.secondsToDate''),
      (''month'', JFun ''_fns.month'')]"

definition proto_fnsProps :: props where
  "proto_fnsProps =
     [(''boolean'', \<lparr>minArgs = 1, maxArgs = MaxArgs 1, isRandom = False, category = ''DG.Formula.FuncCategoryConversion''\<rparr>),
      (''frac'', \<lparr>minArgs = 1, maxArgs = MaxArgs 1, isRandom = False, category = ''DG.Formula.FuncCategoryArithmetic''\<rparr>),
      (''ln'', \<lparr>minArgs = 1, maxArgs = MaxArgs 1, isRandom = False, category = ''DG.Formula.FuncCategoryArithmetic''\<rparr>),
      (''log'', \<lparr>minArgs = 1, maxArgs = MaxArgs 1, isRandom = False, category = ''DG.Formula.FuncCategoryArithmetic''\<rparr>),
      (''number'', \<lparr>minArgs = 1, maxArgs = MaxArgs 1, isRandom = False, category = ''DG.Formula.FuncCategoryConversion''\<rparr>),
      (''random'', \<lparr>minArgs = 0, maxArgs = MaxArgs 2, isRandom = True, category = ''DG.Formula.FuncCategoryRandom''\<rparr>),
      (''round'', \<lparr>minArgs = 1, maxArgs = MaxArgs 2, isRandom = False, category = ''DG.Formula.FuncCategoryArithmetic''\<rparr>),
      (''string'', \<lparr>minArgs = 1, maxArgs = MaxArgs 1, isRandom = False, category = ''DG.Formula.FuncCategoryConversion''\<rparr>),
      (''trunc'', \<lparr>minArgs = 1, maxArgs = MaxArgs 1, isRandom = False, category = ''DG.Formula.FuncCategoryArithmetic''\<rparr>),
      (''greatCircleDistance'', \<lparr>minArgs = 4, maxArgs = MaxArgs 4, isRandom = False, category = ''DG.Formula.FuncCategoryOther''\<rparr>),
      (''secondsToDate'', \<lparr>minArgs = 1, maxArgs = MaxArgs 1, isRandom = False, category = ''DG.Formula.FuncCategoryDateTime''\<rparr>),
      (''month'', \<lparr>minArgs = 1, maxArgs = MaxArgs 1, isRandom = False, category = ''DG.Formula.FuncCategoryDateTime''\<rparr>)]"

definition proto_MathFnProps :: props where
  "proto_MathFnProps =
     [(''abs'', \<lparr>minArgs = 1, maxArgs = MaxArgs 1, isRandom = False, category = ''DG.Formula.FuncCategoryArithmetic''\<rparr>),
      (''acos'', \<lparr>minArgs = 1, maxArgs = MaxArgs 1, isRandom = False, category = ''DG.Formula.FuncCategoryTrigonometric''\<rparr>),
      (''asin'', \<lparr>minArgs = 1, maxArgs = MaxArgs 1, isRandom = False, category = ''DG.Formula.FuncCategoryTrigonometric''\<rparr>),
      (''atan'', \<lparr>minArgs = 1, maxArgs = MaxArgs 1, isRandom = False, category = ''DG.Formula.FuncCategoryTrigonometric''\<rparr>),
      (''atan2'', \<lparr>minArgs = 2, maxArgs = MaxArgs 2, isRandom = False, category = ''DG.Formula.FuncCategoryTrigonometric''\<rparr>),
      (''ceil'', \<lparr>minArgs = 1, maxArgs = MaxArgs 1, isRandom = False, category = ''DG.Formula.FuncCategoryArithmetic''\<rparr>),
      (''cos'', \<lparr>minArgs = 1, maxArgs = MaxArgs 1, isRandom = False, category = ''DG.Formula.FuncCategoryTrigonometric''\<rparr>),
      (''exp'', \<lparr>minArgs = 1, maxArgs = MaxArgs 1, isRandom = False, category = ''DG.Formula.FuncCategoryArithmetic''\<rparr>),
      (''floor'', \<lparr>minArgs = 1, maxArgs = MaxArgs 1, isRandom = False, category = ''DG.Formula.FuncCategoryArithmetic''\<rparr>),
      (''pow'', \<lparr>minArgs = 2, maxArgs = MaxArgs 2, isRandom = False, category = ''DG.Formula.FuncCategoryArithmetic''\<rparr>),
      (''sin'', \<lparr>minArgs = 1, maxArgs = MaxArgs 1, isRandom = False, category = ''DG.Formula.FuncCategoryTrigonometric''\<rparr>),
      (''sqrt'', \<lparr>minArgs = 1, maxArgs = MaxArgs 1, isRandom = False, category = ''DG.Formula.FuncCategoryArithmetic''\<rparr>),
      (''tan'', \<lparr>minArgs = 1, maxArgs = MaxArgs 1, isRandom = False, category = ''DG.Formula.FuncCategoryTrigonometric''\<rparr>)]"

definition prototypeContext :: FormulaContext where
  "prototypeContext =
     \<lparr>x_functionContextStack = [], eVars = None, vars = None,
      x_fns = Some proto_fns, x_fnsProps = Some proto_fnsProps,
      x_MathFnProps = Some proto_MathFnProps, fns = None, fnsProps = None,
      registered = [], logged = []\<rparr>"

text \<open>
  A host for concrete runs: the \<^verbatim>\<open>Math\<close> object of ECMAScript 5 (the two constants the
  source reads, with the exact values of the doubles, and its functions), the global
  \<^verbatim>\<open>DG\<close>, and a \<open>call\<close> that reports which function was applied to how many arguments.
\<close>

definition stdMath :: table where
  "stdMath =
     [(''PI'', JNum (884279719003555 / 281474976710656)),
      (''E'', JNum (6121026514868073 / 2251799813685248)),
      (''abs'', JFun ''Math.abs''),
      (''acos'', JFun ''Math.acos''),
      (''asin'', JFun ''Math.asin''),
      (''atan'', JFun ''Math.atan''),
      (''atan2'', JFun ''Math.atan2''),
      (''ceil'', JFun ''Math.ceil''),
      (''cos'', JFun ''Math.cos''),
      (''exp'', JFun ''Math.exp''),
      (''floor'', JFun ''Math.floor''),
      (''log'', JFun ''Math.log''),
      (''max'', JFun ''Math.max''),
      (''min'', JFun ''Math.min''),
      (''pow'', JFun ''Math.pow''),
      (''random'', JFun ''Math.random''),
      (''round'', JFun ''Math.round''),
      (''sin'', JFun ''Math.sin''),
      (''sqrt'', JFun ''Math.sqrt''),
      (''tan'', JFun ''Math.tan'')]"

definition reportCall :: "jsval \<Rightarrow> jsval \<Rightarrow> jsval list \<Rightarrow> error + jsval" where
  "reportCall f thisArg args =
     (case f of
        JFun fid \<Rightarrow> Inr (JObj [(''applied'', JStr fid), (''argc'', JNum (of_nat (length args)))])
      | _ \<Rightarrow> Inl TypeError)"

definition stdHost :: host where
  "stdHost = \<lparr>Math = stdMath, globals = [(''DG'', JObj [])], call = reportCall\<rparr>"

section \<open>Notions used to state the properties\<close>

text \<open>
  The three function scopes, the table of each, the metadata table that belongs to it and
  the text a call into it starts with.
\<close>

datatype scope = BuiltIn | HostMath | Client

definition scopeFns :: "FormulaContext \<Rightarrow> host \<Rightarrow> scope \<Rightarrow> table option" where
  "scopeFns ctx h sc =
     (case sc of BuiltIn \<Rightarrow> x_fns ctx | HostMath \<Rightarrow> Some (Math h) | Client \<Rightarrow> fns ctx)"

definition scopeProps :: "FormulaContext \<Rightarrow> scope \<Rightarrow> props option" where
  "scopeProps ctx sc =
     (case sc of BuiltIn \<Rightarrow> x_fnsProps ctx | HostMath \<Rightarrow> x_MathFnProps ctx
      | Client \<Rightarrow> fnsProps ctx)"

definition scopePrefix :: "scope \<Rightarrow> string" where
  "scopePrefix sc =
     (case sc of BuiltIn \<Rightarrow> ''c._fns.'' | HostMath \<Rightarrow> ''Math.'' | Client \<Rightarrow> ''c.fns.'')"

text \<open>A name is present in a scope when the scope's table holds a function under it.\<close>

definition inScope :: "FormulaContext \<Rightarrow> host \<Rightarrow> scope \<Rightarrow> string \<Rightarrow> bool" where
  "inScope ctx h sc iName = hasFunction (scopeFns ctx h sc) iName"

text \<open>The metadata entry of a name in the table that belongs to a scope, if there is one.\<close>

definition metadataOf :: "FormulaContext \<Rightarrow> scope \<Rightarrow> string \<Rightarrow> FunctionSpec option" where
  "metadataOf ctx sc iName =
     (case scopeProps ctx sc of None \<Rightarrow> None | Some m \<Rightarrow> map_of m iName)"

text \<open>The text of a call into a scope, and the application of the scope's function.\<close>

definition callCode :: "scope \<Rightarrow> string \<Rightarrow> string list \<Rightarrow> string" where
  "callCode sc iName iArgs = scopePrefix sc @ iName @ ''('' @ joinComma iArgs @ '')''"

definition applyIn :: "FormulaContext \<Rightarrow> host \<Rightarrow> scope \<Rightarrow> string \<Rightarrow> jsval list \<Rightarrow> error + jsval" where
  "applyIn ctx h sc iName iArgs =
     call h (getProp (tableOf (scopeFns ctx h sc)) iName) (JObj (tableOf (scopeFns ctx h sc)))
       iArgs"

text \<open>The dependency on the implicit source of randomness.\<close>

definition randomDependency :: "int list \<Rightarrow> Dependency" where
  "randomDependency iAggFnIndices =
     \<lparr>independentSpec =
        \<lparr>spec_type = DEP_TYPE_SPECIAL, spec_id = ''random'', spec_name = ''random''\<rparr>,
      aggFnIndices = Some iAggFnIndices\<rparr>"

text \<open>The dependency on a name that no scope defines.\<close>

definition unresolvedDependency :: "string \<Rightarrow> Dependency" where
  "unresolvedDependency iName =
     \<lparr>independentSpec =
        \<lparr>spec_type = DEP_TYPE_UNDEFINED, spec_id = iName, spec_name = iName\<rparr>,
      aggFnIndices = None\<rparr>"

text \<open>The names of the constant scope.\<close>

definition isConstantName :: "string \<Rightarrow> bool" where
  "isConstantName iName = (iName = ''pi'' \<or> iName = pi_name \<or> iName = ''e'')"

text \<open>
  Using one scope for a call: the arity check against the scope's metadata, then, on
  the compile path, the random dependency and the call text, and on the evaluate path
  the application of the scope's function.
\<close>

definition compileInScope ::
  "FormulaContext \<Rightarrow> scope \<Rightarrow> string \<Rightarrow> string list \<Rightarrow> int list
     \<Rightarrow> (error + string) \<times> FormulaContext" where
  "compileInScope ctx sc iName iArgs iAggFnIndices =
     (case metadataOf ctx sc iName of
        None \<Rightarrow> (Inr (callCode sc iName iArgs), ctx)
      | Some p \<Rightarrow>
          if int (length iArgs) < minArgs p then (Inl (FuncArgsError iName p), ctx)
          else (Inr (callCode sc iName iArgs),
                if isRandom p then registerDependency ctx (randomDependency iAggFnIndices)
                else ctx))"

definition evaluateInScope ::
  "FormulaContext \<Rightarrow> host \<Rightarrow> scope \<Rightarrow> string \<Rightarrow> jsval list
     \<Rightarrow> (error + jsval) \<times> FormulaContext" where
  "evaluateInScope ctx h sc iName iArgs =
     (case metadataOf ctx sc iName of
        None \<Rightarrow> (applyIn ctx h sc iName iArgs, ctx)
      | Some p \<Rightarrow>
          if int (length iArgs) < minArgs p then (Inl (FuncArgsError iName p), ctx)
          else (applyIn ctx h sc iName iArgs, ctx))"

text \<open>The scope a name resolves in: the first, in priority order, that it is present in.\<close>

definition resolvedScope :: "FormulaContext \<Rightarrow> host \<Rightarrow> string \<Rightarrow> scope option" where
  "resolvedScope ctx h iName =
     (if inScope ctx h BuiltIn iName then Some BuiltIn
      else if inScope ctx h HostMath iName then Some HostMath
      else if inScope ctx h Client iName then Some Client
      else None)"

text \<open>
  A context for concrete runs with a client table: \<^verbatim>\<open>log\<close> is in all three scopes,
  \<^verbatim>\<open>sin\<close> in the host's \<^verbatim>\<open>Math\<close> and the client's table, \<^verbatim>\<open>dice\<close> in the client's only.
\<close>

definition clientContext :: FormulaContext where
  "clientContext =
     prototypeContext
       \<lparr>fns := Some [(''log'', JFun ''fns.log''), (''sin'', JFun ''fns.sin''),
                    (''dice'', JFun ''fns.dice'')],
        fnsProps := Some [(''dice'', \<lparr>minArgs = 0, maxArgs = MaxArgs 1, isRandom = True,
                                     category = ''Client''\<rparr>)]\<rparr>"

section \<open>Auxiliary facts\<close>

lemma hasFunction_simps [simp]:
  "hasFunction None n = False"
  "hasFunction (Some t) n = isFunction (getProp t n)"
  by (simp_all add: hasFunction_def)

lemma tableOf_Some [simp]: "tableOf (Some t) = t"
  by (simp add: tableOf_def)

text \<open>Both checks read one optional metadata entry and compare the argument count with
  its \<open>minArgs\<close> only.\<close>

lemma checkArgs_metadata:
  "checkArgs n as specs =
     (case (case specs of None \<Rightarrow> None | Some m \<Rightarrow> map_of m n) of
        None \<Rightarrow> Inr ()
      | Some p \<Rightarrow> if int (length as) < minArgs p then Inl (FuncArgsError n p) else Inr ())"
  by (simp add: checkArgs_def split: option.splits)

lemma checkArgsAndRandom_metadata:
  "checkArgsAndRandom ctx as ix n specs =
     (case (case specs of None \<Rightarrow> None | Some m \<Rightarrow> map_of m n) of
        None \<Rightarrow> (Inr (), ctx)
      | Some p \<Rightarrow>
          if int (length as) < minArgs p then (Inl (FuncArgsError n p), ctx)
          else (Inr (), if isRandom p then registerDependency ctx (randomDependency ix) else ctx))"
  by (simp add: checkArgsAndRandom_def checkArgs_metadata randomDependency_def Let_def
      split: option.splits)

lemma resolvedScope_cases:
  "resolvedScope ctx h n = Some BuiltIn \<longleftrightarrow> hasFunction (x_fns ctx) n"
  "resolvedScope ctx h n = Some HostMath \<longleftrightarrow>
     \<not> hasFunction (x_fns ctx) n \<and> isFunction (getProp (Math h) n)"
  "resolvedScope ctx h n = Some Client \<longleftrightarrow>
     \<not> hasFunction (x_fns ctx) n \<and> \<not> isFunction (getProp (Math h) n) \<and> hasFunction (fns ctx) n"
  "resolvedScope ctx h n = None \<longleftrightarrow>
     \<not> hasFunction (x_fns ctx) n \<and> \<not> isFunction (getProp (Math h) n) \<and> \<not> hasFunction (fns ctx) n"
  by (simp_all add: resolvedScope_def inScope_def scopeFns_def)

text \<open>Both entry points use the scope the name resolves in, and that scope only.\<close>

lemma compileFunction_in_scope:
  assumes "resolvedScope ctx h n = Some sc"
  shows "compileFunction ctx h n as ix = compileInScope ctx sc n as ix"
proof (cases sc)
  case BuiltIn
  with assms have "hasFunction (x_fns ctx) n" by (simp add: resolvedScope_cases)
  then show ?thesis
    by (simp add: BuiltIn compileFunction_def compileInScope_def checkArgsAndRandom_metadata
        metadataOf_def scopeProps_def callCode_def scopePrefix_def split: option.splits)
next
  case HostMath
  with assms have "\<not> hasFunction (x_fns ctx) n" "isFunction (getProp (Math h) n)"
    by (simp_all add: resolvedScope_cases)
  then show ?thesis
    by (simp add: HostMath compileFunction_def compileInScope_def checkArgsAndRandom_metadata
        metadataOf_def scopeProps_def callCode_def scopePrefix_def split: option.splits)
next
  case Client
  with assms have "\<not> hasFunction (x_fns ctx) n" "\<not> isFunction (getProp (Math h) n)"
    "hasFunction (fns ctx) n"
    by (simp_all add: resolvedScope_cases)
  then show ?thesis
    by (simp add: Client compileFunction_def compileInScope_def checkArgsAndRandom_metadata
        metadataOf_def scopeProps_def callCode_def scopePrefix_def split: option.splits)
qed

lemma evaluateFunction_in_scope:
  assumes "resolvedScope ctx h n = Some sc"
  shows "evaluateFunction ctx h n vs = evaluateInScope ctx h sc n vs"
proof (cases sc)
  case BuiltIn
  with assms have "hasFunction (x_fns ctx) n" by (simp add: resolvedScope_cases)
  then show ?thesis
    by (simp add: BuiltIn evaluateFunction_def evaluateInScope_def checkArgs_metadata
        metadataOf_def scopeProps_def applyIn_def scopeFns_def split: option.splits)
next
  case HostMath
  with assms have "\<not> hasFunction (x_fns ctx) n" "isFunction (getProp (Math h) n)"
    by (simp_all add: resolvedScope_cases)
  then show ?thesis
    by (simp add: HostMath evaluateFunction_def evaluateInScope_def checkArgs_metadata
        metadataOf_def scopeProps_def applyIn_def scopeFns_def split: option.splits)
next
  case Client
  with assms have "\<not> hasFunction (x_fns ctx) n" "\<not> isFunction (getProp (Math h) n)"
    "hasFunction (fns ctx) n"
    by (simp_all add: resolvedScope_cases)
  then show ?thesis
    by (simp add: Client evaluateFunction_def evaluateInScope_def checkArgs_metadata
        metadataOf_def scopeProps_def applyIn_def scopeFns_def split: option.splits)
qed

text \<open>A name that no scope holds: deferred on the compile path, immediate on the other.\<close>

lemma compileFunction_unresolved:
  "resolvedScope ctx h n = None \<Longrightarrow>
   compileFunction ctx h n as ix =
     (Inr (''(function(){throw new DG.FuncReferenceError('' @ n @ '');})()''), ctx)"
  by (simp add: resolvedScope_cases compileFunction_def)

lemma evaluateFunction_unresolved:
  "resolvedScope ctx h n = None \<Longrightarrow>
   evaluateFunction ctx h n vs = (Inl (FuncReferenceError (JStr n)), ctx)"
  by (simp add: resolvedScope_cases evaluateFunction_def)

text \<open>Resolution and metadata in the prototype's own tables.\<close>

lemma proto_resolved_builtin:
  "hasFunction (Some proto_fns) n \<Longrightarrow> resolvedScope prototypeContext h n = Some BuiltIn"
  by (simp add: resolvedScope_cases prototypeContext_def)

lemma proto_metadata_builtin:
  "metadataOf prototypeContext BuiltIn n = map_of proto_fnsProps n"
  by (simp add: metadataOf_def scopeProps_def prototypeContext_def)

text \<open>The stack: a push followed by the matching pop.\<close>

lemma decrementLength_snoc: "decrementLength (xs @ [x]) = Inr xs"
  by (simp add: decrementLength_def)

lemma topName_snoc: "topName (xs @ [x]) = name x"
  by (simp add: topName_def)

lemma end_after_begin:
  "name e = name b \<Longrightarrow>
   endFunctionContext (beginFunctionContext ctx b) (Some e) = (Inr (), ctx)"
  by (simp add: endFunctionContext_def beginFunctionContext_def endName_def topName_snoc
      decrementLength_snoc)

lemma endAll_append:
  "endAll ctx (es @ fs) =
     (case endAll ctx es of (Inl err, ctx') \<Rightarrow> (Inl err, ctx') | (Inr u, ctx') \<Rightarrow> endAll ctx' fs)"
  by (induction es arbitrary: ctx) (auto split: prod.splits sum.splits)

lemma balanced_begin_end:
  "map name es = rev (map name bs) \<Longrightarrow>
   endAll (beginAll ctx bs) (map Some es) = (Inr (), ctx)"
proof (induction bs arbitrary: ctx es)
  case Nil
  then show ?case by simp
next
  case (Cons b bs)
  from Cons.prems have "map name es = rev (map name bs) @ [name b]" by simp
  then obtain es' e where es: "es = es' @ [e]" and names: "map name es' = rev (map name bs)"
    and last: "name e = name b"
    by (cases es rule: rev_cases) auto
  have "endAll (beginAll (beginFunctionContext ctx b) bs) (map Some es') =
        (Inr (), beginFunctionContext ctx b)"
    using Cons.IH [OF names] .
  then show ?case
    using last by (simp add: es endAll_append end_after_begin)
qed

lemma end_mismatch:
  "endName fc \<noteq> Some (topName (x_functionContextStack ctx)) \<Longrightarrow>
   endFunctionContext ctx fc =
     (Inr (), logError ctx
        ''Error: DG.FormulaContext.endFunctionContext -- attempt to end incorrect function context'')"
  by (simp add: endFunctionContext_def)

section \<open>The function context stack\<close>

text \<open>
  The parts of C7 that hold. Beginning the function contexts \<open>bs\<close> and then ending contexts
  \<open>es\<close> whose names are those of \<open>bs\<close> in reverse order restores the context exactly: the
  stack is as it was (empty when it started empty), nothing is logged and no call throws.
  And ending a context (or an absent one) whose name differs from the top name as
  \<^verbatim>\<open>endFunctionContext\<close> computes it (the top entry's name, the empty string when there is
  no entry) returns normally, leaves the stack unchanged and logs the violation.
\<close>

lemma stack_balanced_and_mismatch_by_top_name:
  "(map name es = rev (map name bs) \<longrightarrow>
      endAll (beginAll ctx bs) (map Some es) = (Inr (), ctx))
   \<and> (endName fc \<noteq> Some (topName (x_functionContextStack ctx)) \<longrightarrow>
        endFunctionContext ctx fc =
          (Inr (), ctx\<lparr>logged := logged ctx @
             [''Error: DG.FormulaContext.endFunctionContext -- attempt to end incorrect function context'']\<rparr>))"
  using balanced_begin_end end_mismatch by (simp add: logError_def)

text \<open>On a non-empty stack the top name is the top entry's name: there, a name that does
  not match the top entry's name is logged and the stack is left as it was.\<close>

lemma end_mismatch_nonempty:
  "x_functionContextStack ctx \<noteq> [] \<Longrightarrow>
   endName fc \<noteq> Some (name (last (x_functionContextStack ctx))) \<Longrightarrow>
   endFunctionContext ctx fc =
     (Inr (), ctx\<lparr>logged := logged ctx @
        [''Error: DG.FormulaContext.endFunctionContext -- attempt to end incorrect function context'']\<rparr>)"
  by (simp add: endFunctionContext_def topName_def last_conv_nth logError_def)

text \<open>
  C7 at the empty stack. Right after \<^verbatim>\<open>init\<close> the stack has no entry, so a context named
  by the empty string matches no top entry; yet \<^verbatim>\<open>endFunctionContext\<close> compares its name
  with the default \<^verbatim>\<open>''\<close>, takes the popping branch and throws a RangeError to the caller.
  Nothing is logged.
\<close>

theorem endFunctionContext_empty_name_after_init_throws:
  "x_functionContextStack (init ctx) = []
   \<and> endFunctionContext (init ctx) (Some \<lparr>name = '''', isAggregate = False\<rparr>)
       = (Inl RangeError, init ctx)
   \<and> logged (init ctx) = logged ctx"
  by (simp add: init_def endFunctionContext_def endName_def topName_def decrementLength_def)

text \<open>
  C10. On the empty stack the top name defaults to the empty string, so ending a context
  named by the empty string takes the matching branch, where decrementing the length of
  the empty array throws a RangeError (the stack stays empty, nothing is logged). On every
  non-empty stack, ending a context with the top entry's name removes exactly the top entry
  and leaves the rest as it was.
\<close>

theorem endFunctionContext_empty_stack_and_pop:
  "topName [] = ''''
   \<and> (x_functionContextStack ctx = [] \<and> name fc = '''' \<longrightarrow>
        endFunctionContext ctx (Some fc) = (Inl RangeError, ctx))
   \<and> (x_functionContextStack ctx' \<noteq> [] \<and> name fc' = name (last (x_functionContextStack ctx')) \<longrightarrow>
        endFunctionContext ctx' (Some fc') =
          (Inr (), ctx'\<lparr>x_functionContextStack := butlast (x_functionContextStack ctx')\<rparr>))"
  by (auto simp: endFunctionContext_def endName_def topName_def decrementLength_def last_conv_nth
      butlast_conv_take)

theorem endFunctionContext_empty_stack_and_pop_witness:
  "x_functionContextStack prototypeContext = [] \<and> name \<lparr>name = '''', isAggregate = False\<rparr> = ''''
   \<and> endFunctionContext prototypeContext (Some \<lparr>name = '''', isAggregate = False\<rparr>)
       = (Inl RangeError, prototypeContext)
   \<and> x_functionContextStack
        (prototypeContext\<lparr>x_functionContextStack :=
           [\<lparr>name = ''mean'', isAggregate = True\<rparr>, \<lparr>name = ''round'', isAggregate = False\<rparr>]\<rparr>) \<noteq> []
   \<and> endFunctionContext
        (prototypeContext\<lparr>x_functionContextStack :=
           [\<lparr>name = ''mean'', isAggregate = True\<rparr>, \<lparr>name = ''round'', isAggregate = False\<rparr>]\<rparr>)
        (Some \<lparr>name = ''round'', isAggregate = True\<rparr>)
       = (Inr (), prototypeContext\<lparr>x_functionContextStack := [\<lparr>name = ''mean'', isAggregate = True\<rparr>]\<rparr>)"
  using endFunctionContext_empty_stack_and_pop
      [of prototypeContext "\<lparr>name = '''', isAggregate = False\<rparr>"
      "prototypeContext\<lparr>x_functionContextStack :=
           [\<lparr>name = ''mean'', isAggregate = True\<rparr>, \<lparr>name = ''round'', isAggregate = False\<rparr>]\<rparr>"
      "\<lparr>name = ''round'', isAggregate = True\<rparr>"]
  by (simp add: prototypeContext_def)

section \<open>Argument counts\<close>

text \<open>
  C4. When a name resolves in a scope whose metadata table has an entry \<open>p\<close> for it, a call
  with fewer than \<open>minArgs p\<close> arguments raises the arity error carrying the name and the
  entry (hence its declared bounds), on the compile path and on the evaluate path. The
  outcome is the error alone: no call text is returned, no dependency is registered, and
  the result does not depend on what the host's application of the function would give.
\<close>

theorem arity_error_below_minArgs:
  "resolvedScope ctx h n = Some sc \<and> metadataOf ctx sc n = Some p \<longrightarrow>
     (int (length as) < minArgs p \<longrightarrow>
        compileFunction ctx h n as ix = (Inl (FuncArgsError n p), ctx))
     \<and> (int (length vs) < minArgs p \<longrightarrow>
        evaluateFunction ctx h n vs = (Inl (FuncArgsError n p), ctx))"
  by (simp add: compileFunction_in_scope evaluateFunction_in_scope compileInScope_def
      evaluateInScope_def)

theorem arity_error_below_minArgs_witness:
  "resolvedScope prototypeContext stdHost ''greatCircleDistance'' = Some BuiltIn
   \<and> metadataOf prototypeContext BuiltIn ''greatCircleDistance''
       = Some \<lparr>minArgs = 4, maxArgs = MaxArgs 4, isRandom = False,
               category = ''DG.Formula.FuncCategoryOther''\<rparr>
   \<and> compileFunction prototypeContext stdHost ''greatCircleDistance'' [''1'', ''2''] []
       = (Inl (FuncArgsError ''greatCircleDistance''
            \<lparr>minArgs = 4, maxArgs = MaxArgs 4, isRandom = False,
             category = ''DG.Formula.FuncCategoryOther''\<rparr>), prototypeContext)
   \<and> evaluateFunction prototypeContext stdHost ''greatCircleDistance'' [JNum 1, JNum 2, JNum 3]
       = (Inl (FuncArgsError ''greatCircleDistance''
            \<lparr>minArgs = 4, maxArgs = MaxArgs 4, isRandom = False,
             category = ''DG.Formula.FuncCategoryOther''\<rparr>), prototypeContext)"
proof -
  have r: "resolvedScope prototypeContext stdHost ''greatCircleDistance'' = Some BuiltIn"
    by (rule proto_resolved_builtin) (simp add: proto_fns_def getProp_def)
  have m: "metadataOf prototypeContext BuiltIn ''greatCircleDistance''
       = Some \<lparr>minArgs = 4, maxArgs = MaxArgs 4, isRandom = False,
               category = ''DG.Formula.FuncCategoryOther''\<rparr>"
    by (simp add: proto_metadata_builtin proto_fnsProps_def)
  show ?thesis
    using arity_error_below_minArgs [of prototypeContext stdHost "''greatCircleDistance''" BuiltIn
        "\<lparr>minArgs = 4, maxArgs = MaxArgs 4, isRandom = False,
               category = ''DG.Formula.FuncCategoryOther''\<rparr>" "[''1'', ''2'']" "[]"
        "[JNum 1, JNum 2, JNum 3]"] r m
    by simp
qed

text \<open>
  C5. When a name resolves in a scope whose metadata table has an entry \<open>p\<close> for it, a call
  with at least \<open>minArgs p\<close> arguments raises no arity error, whatever \<open>maxArgs p\<close> is: the
  compile path returns the call text, and the evaluate path applies the function, its
  outcome being what the function itself returns or throws.
\<close>

theorem no_arity_error_at_or_above_minArgs:
  "resolvedScope ctx h n = Some sc \<and> metadataOf ctx sc n = Some p \<longrightarrow>
     (minArgs p \<le> int (length as) \<longrightarrow>
        fst (compileFunction ctx h n as ix) = Inr (callCode sc n as))
     \<and> (minArgs p \<le> int (length vs) \<longrightarrow>
        evaluateFunction ctx h n vs = (applyIn ctx h sc n vs, ctx))"
  by (simp add: compileFunction_in_scope evaluateFunction_in_scope compileInScope_def
      evaluateInScope_def)

theorem no_arity_error_at_or_above_minArgs_witness:
  "resolvedScope prototypeContext stdHost ''round'' = Some BuiltIn
   \<and> metadataOf prototypeContext BuiltIn ''round''
       = Some \<lparr>minArgs = 1, maxArgs = MaxArgs 2, isRandom = False,
               category = ''DG.Formula.FuncCategoryArithmetic''\<rparr>
   \<and> fst (compileFunction prototypeContext stdHost ''round'' [''a'', ''b'', ''c''] [])
       = Inr ''c._fns.round(a,b,c)''
   \<and> evaluateFunction prototypeContext stdHost ''round'' [JNum 1, JNum 2, JNum 3]
       = (Inr (JObj [(''applied'', JStr ''_fns.round''), (''argc'', JNum 3)]), prototypeContext)"
proof -
  have r: "resolvedScope prototypeContext stdHost ''round'' = Some BuiltIn"
    by (rule proto_resolved_builtin) (simp add: proto_fns_def getProp_def)
  have m: "metadataOf prototypeContext BuiltIn ''round''
       = Some \<lparr>minArgs = 1, maxArgs = MaxArgs 2, isRandom = False,
               category = ''DG.Formula.FuncCategoryArithmetic''\<rparr>"
    by (simp add: proto_metadata_builtin proto_fnsProps_def)
  have a: "applyIn prototypeContext stdHost BuiltIn ''round'' [JNum 1, JNum 2, JNum 3]
       = Inr (JObj [(''applied'', JStr ''_fns.round''), (''argc'', JNum 3)])"
    by (simp add: applyIn_def scopeFns_def prototypeContext_def stdHost_def reportCall_def
        proto_fns_def getProp_def)
  show ?thesis
    using no_arity_error_at_or_above_minArgs [of prototypeContext stdHost "''round''" BuiltIn
        "\<lparr>minArgs = 1, maxArgs = MaxArgs 2, isRandom = False,
               category = ''DG.Formula.FuncCategoryArithmetic''\<rparr>" "[''a'', ''b'', ''c'']" "[]"
        "[JNum 1, JNum 2, JNum 3]"] r m a
    by (simp add: callCode_def scopePrefix_def)
qed

text \<open>
  C9. When a name resolves in a scope whose metadata table has no entry for it (or is
  absent), the arity check is skipped: for every argument list, the empty one included,
  the compile path returns the call text with the context unchanged and the evaluate path
  applies the function. The prototype's \<^verbatim>\<open>isFinite\<close> is such a name: it is a function of
  \<^verbatim>\<open>_fns\<close> without an entry in \<^verbatim>\<open>_fnsProps\<close>.
\<close>

theorem missing_metadata_skips_arity_check:
  "(resolvedScope ctx h n = Some sc \<and> metadataOf ctx sc n = None \<longrightarrow>
      compileFunction ctx h n as ix = (Inr (callCode sc n as), ctx)
      \<and> evaluateFunction ctx h n vs = (applyIn ctx h sc n vs, ctx))
   \<and> hasFunction (x_fns prototypeContext) ''isFinite''
   \<and> metadataOf prototypeContext BuiltIn ''isFinite'' = None"
  by (simp add: compileFunction_in_scope evaluateFunction_in_scope compileInScope_def
      evaluateInScope_def proto_metadata_builtin)
     (simp add: prototypeContext_def proto_fns_def proto_fnsProps_def getProp_def)

theorem missing_metadata_skips_arity_check_witness:
  "resolvedScope prototypeContext stdHost ''isFinite'' = Some BuiltIn
   \<and> metadataOf prototypeContext BuiltIn ''isFinite'' = None
   \<and> compileFunction prototypeContext stdHost ''isFinite'' [] []
       = (Inr ''c._fns.isFinite()'', prototypeContext)
   \<and> evaluateFunction prototypeContext stdHost ''isFinite'' []
       = (Inr (JObj [(''applied'', JStr ''_fns.isFinite''), (''argc'', JNum 0)]), prototypeContext)"
proof -
  have r: "resolvedScope prototypeContext stdHost ''isFinite'' = Some BuiltIn"
    by (rule proto_resolved_builtin) (simp add: proto_fns_def getProp_def)
  have a: "applyIn prototypeContext stdHost BuiltIn ''isFinite'' []
       = Inr (JObj [(''applied'', JStr ''_fns.isFinite''), (''argc'', JNum 0)])"
    by (simp add: applyIn_def scopeFns_def prototypeContext_def stdHost_def reportCall_def
        proto_fns_def getProp_def)
  show ?thesis
    using missing_metadata_skips_arity_check
        [of prototypeContext stdHost "''isFinite''" BuiltIn "[]" "[]" "[]"] r a
    by (simp add: callCode_def scopePrefix_def)
qed

section \<open>The random dependency\<close>

text \<open>\<^verbatim>\<open>evaluateFunction\<close> never touches the context: it registers nothing.\<close>

lemma evaluateFunction_context: "snd (evaluateFunction ctx h n vs) = ctx"
proof (cases "resolvedScope ctx h n")
  case None
  then show ?thesis by (simp add: evaluateFunction_unresolved)
next
  case (Some sc)
  then show ?thesis
    by (simp add: evaluateFunction_in_scope evaluateInScope_def split: option.splits)
qed

text \<open>
  C2, as stated, fails on the evaluate path: evaluating \<^verbatim>\<open>random()\<close> on the prototype
  applies the built-in function, whose metadata is flagged \<^verbatim>\<open>isRandom\<close>, and leaves the
  trace of registered dependencies empty.
\<close>

theorem evaluateFunction_random_registers_nothing:
  "metadataOf prototypeContext BuiltIn ''random''
       = Some \<lparr>minArgs = 0, maxArgs = MaxArgs 2, isRandom = True,
               category = ''DG.Formula.FuncCategoryRandom''\<rparr>
   \<and> evaluateFunction prototypeContext stdHost ''random'' []
       = (Inr (JObj [(''applied'', JStr ''_fns.random''), (''argc'', JNum 0)]), prototypeContext)
   \<and> registered prototypeContext = []"
  by (simp add: proto_metadata_builtin proto_fnsProps_def)
     (simp add: evaluateFunction_def checkArgs_def prototypeContext_def proto_fns_def
        proto_fnsProps_def getProp_def stdHost_def reportCall_def)

text \<open>
  C2, amended. On the compile path, a call that resolves, in whichever of the three
  scopes, to a function whose metadata entry there is flagged \<^verbatim>\<open>isRandom\<close>, and that passes
  the arity check, registers exactly one dependency: its independent spec is
  \<^verbatim>\<open>{type: Special, id: 'random', name: 'random'}\<close> and it carries the aggregate function
  indices handed to \<^verbatim>\<open>compileFunction\<close>. The evaluate path registers no dependency at all.
\<close>

theorem random_dependency_on_compile_path:
  "(resolvedScope ctx h n = Some sc \<and> metadataOf ctx sc n = Some p \<and> isRandom p
      \<and> minArgs p \<le> int (length as) \<longrightarrow>
      compileFunction ctx h n as ix =
        (Inr (callCode sc n as), ctx\<lparr>registered := registered ctx @ [randomDependency ix]\<rparr>))
   \<and> snd (evaluateFunction ctx h n vs) = ctx"
  by (simp add: compileFunction_in_scope compileInScope_def evaluateFunction_context
      registerDependency_def)

theorem random_dependency_on_compile_path_witness:
  "resolvedScope prototypeContext stdHost ''random'' = Some BuiltIn
   \<and> metadataOf prototypeContext BuiltIn ''random''
       = Some \<lparr>minArgs = 0, maxArgs = MaxArgs 2, isRandom = True,
               category = ''DG.Formula.FuncCategoryRandom''\<rparr>
   \<and> compileFunction prototypeContext stdHost ''random'' [''5'', ''10''] [0, 2]
       = (Inr ''c._fns.random(5,10)'',
          prototypeContext\<lparr>registered :=
            [\<lparr>independentSpec =
                \<lparr>spec_type = DEP_TYPE_SPECIAL, spec_id = ''random'', spec_name = ''random''\<rparr>,
              aggFnIndices = Some [0, 2]\<rparr>]\<rparr>)
   \<and> snd (evaluateFunction prototypeContext stdHost ''random'' [JNum 5, JNum 10]) = prototypeContext"
proof -
  have r: "resolvedScope prototypeContext stdHost ''random'' = Some BuiltIn"
    by (rule proto_resolved_builtin) (simp add: proto_fns_def getProp_def)
  have m: "metadataOf prototypeContext BuiltIn ''random''
       = Some \<lparr>minArgs = 0, maxArgs = MaxArgs 2, isRandom = True,
               category = ''DG.Formula.FuncCategoryRandom''\<rparr>"
    by (simp add: proto_metadata_builtin proto_fnsProps_def)
  have e: "registered prototypeContext = []"
    by (simp add: prototypeContext_def)
  show ?thesis
    using random_dependency_on_compile_path [of prototypeContext stdHost "''random''" BuiltIn
        "\<lparr>minArgs = 0, maxArgs = MaxArgs 2, isRandom = True,
               category = ''DG.Formula.FuncCategoryRandom''\<rparr>" "[''5'', ''10'']" "[0, 2]"
        "[JNum 5, JNum 10]"] r m e
    by (simp add: callCode_def scopePrefix_def randomDependency_def)
qed

section \<open>The order of the function scopes\<close>

lemma inScope_simps:
  "inScope ctx h BuiltIn n = hasFunction (x_fns ctx) n"
  "inScope ctx h HostMath n = isFunction (getProp (Math h) n)"
  "inScope ctx h Client n = hasFunction (fns ctx) n"
  by (simp_all add: inScope_def scopeFns_def)

lemma resolvedScope_later_scopes:
  "inScope ctx h BuiltIn n \<Longrightarrow>
   resolvedScope (ctx\<lparr>x_MathFnProps := mp, fns := cf, fnsProps := cp\<rparr>) (h\<lparr>Math := m\<rparr>) n
     = Some BuiltIn"
  "\<not> inScope ctx h BuiltIn n \<Longrightarrow> inScope ctx h HostMath n \<Longrightarrow>
   resolvedScope (ctx\<lparr>fns := cf, fnsProps := cp\<rparr>) h n = Some HostMath"
  by (simp_all add: resolvedScope_cases inScope_simps)

text \<open>
  C6. Function names resolve in a fixed order, the first scope holding the name winning;
  the order is the same for \<^verbatim>\<open>compileFunction\<close> and \<^verbatim>\<open>evaluateFunction\<close>. A name
  present in the built-in table is compiled and evaluated in the built-in scope (call text
  \<^verbatim>\<open>c._fns.NAME(...)\<close>, the built-in function applied, the arity checked against
  \<^verbatim>\<open>_fnsProps\<close>), and the outcome stays the same when the host's \<^verbatim>\<open>Math\<close> object, its
  metadata and the client's tables are replaced by any others: the later scopes are not
  consulted. A name absent from the built-in table and present in \<^verbatim>\<open>Math\<close> uses \<^verbatim>\<open>Math\<close>,
  whatever the client's tables hold; a name in neither uses the client's table.
\<close>

theorem function_scope_priority:
  "(inScope ctx h BuiltIn n1 \<longrightarrow>
      compileFunction ctx h n1 as ix = compileInScope ctx BuiltIn n1 as ix
      \<and> evaluateFunction ctx h n1 vs = evaluateInScope ctx h BuiltIn n1 vs
      \<and> fst (compileFunction (ctx\<lparr>x_MathFnProps := mp, fns := cf, fnsProps := cp\<rparr>)
               (h\<lparr>Math := m\<rparr>) n1 as ix)
          = fst (compileFunction ctx h n1 as ix)
      \<and> fst (evaluateFunction (ctx\<lparr>x_MathFnProps := mp, fns := cf, fnsProps := cp\<rparr>)
               (h\<lparr>Math := m\<rparr>) n1 vs)
          = fst (evaluateFunction ctx h n1 vs))
   \<and> (\<not> inScope ctx h BuiltIn n2 \<and> inScope ctx h HostMath n2 \<longrightarrow>
      compileFunction ctx h n2 as ix = compileInScope ctx HostMath n2 as ix
      \<and> evaluateFunction ctx h n2 vs = evaluateInScope ctx h HostMath n2 vs
      \<and> fst (compileFunction (ctx\<lparr>fns := cf, fnsProps := cp\<rparr>) h n2 as ix)
          = fst (compileFunction ctx h n2 as ix)
      \<and> fst (evaluateFunction (ctx\<lparr>fns := cf, fnsProps := cp\<rparr>) h n2 vs)
          = fst (evaluateFunction ctx h n2 vs))
   \<and> (\<not> inScope ctx h BuiltIn n3 \<and> \<not> inScope ctx h HostMath n3 \<and> inScope ctx h Client n3 \<longrightarrow>
      compileFunction ctx h n3 as ix = compileInScope ctx Client n3 as ix
      \<and> evaluateFunction ctx h n3 vs = evaluateInScope ctx h Client n3 vs)"
proof (intro conjI impI)
  assume b: "inScope ctx h BuiltIn n1"
  then have r: "resolvedScope ctx h n1 = Some BuiltIn"
    by (simp add: resolvedScope_cases inScope_simps)
  show "compileFunction ctx h n1 as ix = compileInScope ctx BuiltIn n1 as ix"
    using r by (rule compileFunction_in_scope)
  show "evaluateFunction ctx h n1 vs = evaluateInScope ctx h BuiltIn n1 vs"
    using r by (rule evaluateFunction_in_scope)
  show "fst (compileFunction (ctx\<lparr>x_MathFnProps := mp, fns := cf, fnsProps := cp\<rparr>)
               (h\<lparr>Math := m\<rparr>) n1 as ix)
          = fst (compileFunction ctx h n1 as ix)"
    by (simp add: compileFunction_in_scope [OF r]
        compileFunction_in_scope [OF resolvedScope_later_scopes(1) [OF b]]
        compileInScope_def metadataOf_def scopeProps_def split: option.splits)
  show "fst (evaluateFunction (ctx\<lparr>x_MathFnProps := mp, fns := cf, fnsProps := cp\<rparr>)
               (h\<lparr>Math := m\<rparr>) n1 vs)
          = fst (evaluateFunction ctx h n1 vs)"
    by (simp add: evaluateFunction_in_scope [OF r]
        evaluateFunction_in_scope [OF resolvedScope_later_scopes(1) [OF b]]
        evaluateInScope_def metadataOf_def scopeProps_def applyIn_def scopeFns_def
        split: option.splits)
next
  assume a: "\<not> inScope ctx h BuiltIn n2 \<and> inScope ctx h HostMath n2"
  then have r: "resolvedScope ctx h n2 = Some HostMath"
    by (simp add: resolvedScope_cases inScope_simps)
  from a have r': "resolvedScope (ctx\<lparr>fns := cf, fnsProps := cp\<rparr>) h n2 = Some HostMath"
    by (simp add: resolvedScope_later_scopes(2))
  show "compileFunction ctx h n2 as ix = compileInScope ctx HostMath n2 as ix"
    using r by (rule compileFunction_in_scope)
  show "evaluateFunction ctx h n2 vs = evaluateInScope ctx h HostMath n2 vs"
    using r by (rule evaluateFunction_in_scope)
  show "fst (compileFunction (ctx\<lparr>fns := cf, fnsProps := cp\<rparr>) h n2 as ix)
          = fst (compileFunction ctx h n2 as ix)"
    by (simp add: compileFunction_in_scope [OF r] compileFunction_in_scope [OF r']
        compileInScope_def metadataOf_def scopeProps_def split: option.splits)
  show "fst (evaluateFunction (ctx\<lparr>fns := cf, fnsProps := cp\<rparr>) h n2 vs)
          = fst (evaluateFunction ctx h n2 vs)"
    by (simp add: evaluateFunction_in_scope [OF r] evaluateFunction_in_scope [OF r']
        evaluateInScope_def metadataOf_def scopeProps_def applyIn_def scopeFns_def
        split: option.splits)
next
  assume "\<not> inScope ctx h BuiltIn n3 \<and> \<not> inScope ctx h HostMath n3 \<and> inScope ctx h Client n3"
  then have r: "resolvedScope ctx h n3 = Some Client"
    by (simp add: resolvedScope_cases inScope_simps)
  show "compileFunction ctx h n3 as ix = compileInScope ctx Client n3 as ix"
    using r by (rule compileFunction_in_scope)
  show "evaluateFunction ctx h n3 vs = evaluateInScope ctx h Client n3 vs"
    using r by (rule evaluateFunction_in_scope)
qed

lemma clientContext_fields:
  "x_fns clientContext = Some proto_fns"
  "x_fnsProps clientContext = Some proto_fnsProps"
  "x_MathFnProps clientContext = Some proto_MathFnProps"
  "fns clientContext = Some [(''log'', JFun ''fns.log''), (''sin'', JFun ''fns.sin''),
                    (''dice'', JFun ''fns.dice'')]"
  "fnsProps clientContext = Some [(''dice'', \<lparr>minArgs = 0, maxArgs = MaxArgs 1, isRandom = True,
                                     category = ''Client''\<rparr>)]"
  "registered clientContext = []"
  by (simp_all add: clientContext_def prototypeContext_def)

theorem function_scope_priority_witness:
  "inScope clientContext stdHost BuiltIn ''log'' \<and> inScope clientContext stdHost HostMath ''log''
   \<and> inScope clientContext stdHost Client ''log''
   \<and> compileFunction clientContext stdHost ''log'' [''x''] [] = (Inr ''c._fns.log(x)'', clientContext)
   \<and> evaluateFunction clientContext stdHost ''log'' [JNum 100]
       = (Inr (JObj [(''applied'', JStr ''_fns.log''), (''argc'', JNum 1)]), clientContext)
   \<and> \<not> inScope clientContext stdHost BuiltIn ''sin'' \<and> inScope clientContext stdHost HostMath ''sin''
   \<and> inScope clientContext stdHost Client ''sin''
   \<and> compileFunction clientContext stdHost ''sin'' [''x''] [] = (Inr ''Math.sin(x)'', clientContext)
   \<and> evaluateFunction clientContext stdHost ''sin'' [JNum 100]
       = (Inr (JObj [(''applied'', JStr ''Math.sin''), (''argc'', JNum 1)]), clientContext)
   \<and> \<not> inScope clientContext stdHost BuiltIn ''dice'' \<and> \<not> inScope clientContext stdHost HostMath ''dice''
   \<and> inScope clientContext stdHost Client ''dice''
   \<and> fst (compileFunction clientContext stdHost ''dice'' [''x''] []) = Inr ''c.fns.dice(x)''
   \<and> evaluateFunction clientContext stdHost ''dice'' [JNum 100]
       = (Inr (JObj [(''applied'', JStr ''fns.dice''), (''argc'', JNum 1)]), clientContext)"
proof -
  have s: "inScope clientContext stdHost BuiltIn ''log''"
    "inScope clientContext stdHost HostMath ''log''"
    "inScope clientContext stdHost Client ''log''"
    "\<not> inScope clientContext stdHost BuiltIn ''sin''"
    "inScope clientContext stdHost HostMath ''sin''"
    "inScope clientContext stdHost Client ''sin''"
    "\<not> inScope clientContext stdHost BuiltIn ''dice''"
    "\<not> inScope clientContext stdHost HostMath ''dice''"
    "inScope clientContext stdHost Client ''dice''"
    by (simp_all add: inScope_simps clientContext_fields proto_fns_def stdHost_def stdMath_def
        getProp_def)
  have c: "compileInScope clientContext BuiltIn ''log'' [''x''] [] = (Inr ''c._fns.log(x)'', clientContext)"
    "compileInScope clientContext HostMath ''sin'' [''x''] [] = (Inr ''Math.sin(x)'', clientContext)"
    "fst (compileInScope clientContext Client ''dice'' [''x''] []) = Inr ''c.fns.dice(x)''"
    by (simp_all add: compileInScope_def metadataOf_def scopeProps_def clientContext_fields
        proto_fnsProps_def proto_MathFnProps_def callCode_def scopePrefix_def)
  have e: "evaluateInScope clientContext stdHost BuiltIn ''log'' [JNum 100]
       = (Inr (JObj [(''applied'', JStr ''_fns.log''), (''argc'', JNum 1)]), clientContext)"
    "evaluateInScope clientContext stdHost HostMath ''sin'' [JNum 100]
       = (Inr (JObj [(''applied'', JStr ''Math.sin''), (''argc'', JNum 1)]), clientContext)"
    "evaluateInScope clientContext stdHost Client ''dice'' [JNum 100]
       = (Inr (JObj [(''applied'', JStr ''fns.dice''), (''argc'', JNum 1)]), clientContext)"
    by (simp_all add: evaluateInScope_def metadataOf_def scopeProps_def clientContext_fields
        proto_fnsProps_def proto_MathFnProps_def applyIn_def scopeFns_def proto_fns_def
        stdHost_def stdMath_def getProp_def reportCall_def)
  show ?thesis
    using function_scope_priority
        [of clientContext stdHost "''log''" "[''x'']" "[]" "[JNum 100]" None None None "[]"
        "''sin''" "''dice''"] s c e
    by simp
qed

section \<open>Variables\<close>

text \<open>Parsing the texts that \<^verbatim>\<open>compileVariable\<close> emits.\<close>

lemma createContextFunction_Math_PI:
  "createContextFunction ''Math.PI'' = Some (EMember (EIdent ''Math'') ''PI'')"
  by (simp add: createContextFunction_def parseFunctionBody_def parseExpression_def
      throwPrefix_def throwSuffix_def parsePath_def isIdentifierReference_def
      isIdentifierName_def identStart_def identPart_def notReferences_def)

lemma createContextFunction_Math_E:
  "createContextFunction ''Math.E'' = Some (EMember (EIdent ''Math'') ''E'')"
  by (simp add: createContextFunction_def parseFunctionBody_def parseExpression_def
      throwPrefix_def throwSuffix_def parsePath_def isIdentifierReference_def
      isIdentifierName_def identStart_def identPart_def notReferences_def)

lemma invoke_Math_member:
  "evalExpr h c e (EMember (EIdent ''Math'') p) = Inr (getProp (Math h) p)"
  by simp

text \<open>
  The deferred throw, for every name that is an identifier: the text parses to a throw
  whose argument is the identifier itself, so what the invocation raises is decided by
  what that identifier is bound to where the text runs.
\<close>

lemma splitOn_no_delimiter: "d \<notin> set s \<Longrightarrow> splitOn d s = [s]"
  by (induction s) auto

lemma identPart_not_punctuation: "identPart ch \<Longrightarrow> ch \<noteq> CHR ''.'' \<and> ch \<noteq> CHR ''(''"
  by (auto simp: identPart_def identStart_def)

lemma isIdentifierName_chars: "isIdentifierName s \<Longrightarrow> \<forall>ch \<in> set s. identPart ch"
  by (cases s) (auto simp: isIdentifierName_def identPart_def list_all_iff)

lemma parsePath_identifier:
  assumes "isIdentifierReference n"
  shows "parsePath n = Some (EIdent n)"
proof -
  from assms have "isIdentifierName n" by (simp add: isIdentifierReference_def)
  then have "CHR ''.'' \<notin> set n"
    using isIdentifierName_chars identPart_not_punctuation by blast
  then have "splitOn CHR ''.'' n = [n]" by (rule splitOn_no_delimiter)
  with assms show ?thesis by (simp add: parsePath_def)
qed

lemma framed_text:
  "take (length p) (p @ m @ q) = p"
  "drop (length (p @ m @ q) - length q) (p @ m @ q) = q"
  "take (length (p @ m @ q) - length p - length q) (drop (length p) (p @ m @ q)) = m"
  "length p + length q \<le> length (p @ m @ q)"
  by simp_all

lemma parseExpression_framed:
  assumes "takeWhile (\<lambda>ch. ch \<noteq> CHR ''('') m = ctor"
    and "dropWhile (\<lambda>ch. ch \<noteq> CHR ''('') m = paren # argText"
    and "parseErrorClass ctor = Some cls"
    and "parsePath argText = Some a"
  shows "parseExpression (throwPrefix @ m @ throwSuffix) = Some (EThrowNew cls a)"
  unfolding parseExpression_def Let_def framed_text
  using assms by simp

lemma parseExpression_throw:
  assumes "isIdentifierReference n"
  shows "parseExpression (''(function(){throw new DG.VarReferenceError('' @ n @ '');})()'')
           = Some (EThrowNew VarReferenceErrorClass (EIdent n))"
proof -
  have s: "''(function(){throw new DG.VarReferenceError('' @ n @ '');})()''
             = throwPrefix @ (''DG.VarReferenceError'' @ CHR ''('' # n) @ throwSuffix"
    by (simp add: throwPrefix_def throwSuffix_def)
  have tw: "takeWhile (\<lambda>ch. ch \<noteq> CHR ''('') (''DG.VarReferenceError'' @ CHR ''('' # n)
              = ''DG.VarReferenceError''"
    by simp
  have dw: "dropWhile (\<lambda>ch. ch \<noteq> CHR ''('') (''DG.VarReferenceError'' @ CHR ''('' # n)
              = CHR ''('' # n"
    by simp
  have c: "parseErrorClass ''DG.VarReferenceError'' = Some VarReferenceErrorClass"
    by (simp add: parseErrorClass_def)
  show ?thesis
    unfolding s by (rule parseExpression_framed [OF tw dw c parsePath_identifier [OF assms]])
qed

lemma createContextFunction_parse: "createContextFunction x = parseExpression x"
  by (simp add: createContextFunction_def parseFunctionBody_def)

lemma invokeCompiled_throw:
  assumes "isIdentifierReference n"
  shows "invokeCompiled h (''(function(){throw new DG.VarReferenceError('' @ n @ '');})()'') c e
           = Some (case evalExpr h c e (EIdent n) of
                     Inl err \<Rightarrow> Inl err
                   | Inr v \<Rightarrow> Inl (VarReferenceError v))"
  unfolding invokeCompiled_def createContextFunction_parse parseExpression_throw [OF assms]
  by (simp split: option.splits)

lemma unresolved_artifact_undeclared:
  assumes "isIdentifierReference n" "n \<noteq> ''c''" "n \<noteq> ''e''" "n \<noteq> ''Math''"
    "map_of (globals h) n = None"
  shows "invokeCompiled h (''(function(){throw new DG.VarReferenceError('' @ n @ '');})()'') c e
           = Some (Inl (ReferenceError n))"
  using assms(2-) by (simp only: invokeCompiled_throw [OF assms(1)]) simp

lemma unresolved_artifact_c:
  "invokeCompiled h (fst (compileVariable prototypeContext ''c'')) c e
     = Some (Inl (VarReferenceError c))"
proof -
  have "isIdentifierReference ''c''"
    by (simp add: isIdentifierReference_def isIdentifierName_def identStart_def
        notReferences_def)
  moreover have "fst (compileVariable prototypeContext ''c'')
                   = ''(function(){throw new DG.VarReferenceError('' @ ''c'' @ '');})()''"
    by (simp add: compileVariable_def pi_name_def definedIn_def prototypeContext_def)
  ultimately show ?thesis
    by (simp only: invokeCompiled_throw) simp
qed

text \<open>
  C8. For each of the constant names \<^verbatim>\<open>pi\<close>, \<^verbatim>\<open>\<pi>\<close> and \<^verbatim>\<open>e\<close>, compiling the name,
  building the function from the emitted text and invoking it yields the value that
  evaluating the name directly yields: the host's \<^verbatim>\<open>Math.PI\<close>, respectively \<^verbatim>\<open>Math.E\<close>,
  whatever context, arguments and evaluation context are supplied.
\<close>

theorem constants_compile_then_invoke_agrees:
  "invokeCompiled h (fst (compileVariable ctx ''pi'')) c e
     = Some (fst (evaluateVariable ctx h ''pi'' ev))
   \<and> invokeCompiled h (fst (compileVariable ctx pi_name)) c e
     = Some (fst (evaluateVariable ctx h pi_name ev))
   \<and> invokeCompiled h (fst (compileVariable ctx ''e'')) c e
     = Some (fst (evaluateVariable ctx h ''e'' ev))
   \<and> fst (evaluateVariable ctx h ''pi'' ev) = Inr (getProp (Math h) ''PI'')
   \<and> fst (evaluateVariable ctx h pi_name ev) = Inr (getProp (Math h) ''PI'')
   \<and> fst (evaluateVariable ctx h ''e'' ev) = Inr (getProp (Math h) ''E'')"
  by (simp add: compileVariable_def evaluateVariable_def invokeCompiled_def pi_name_def
      createContextFunction_Math_PI createContextFunction_Math_E)

theorem constants_compile_then_invoke_agrees_witness:
  "invokeCompiled stdHost (fst (compileVariable prototypeContext ''pi'')) (JObj []) JUndefined
     = Some (Inr (JNum (884279719003555 / 281474976710656)))
   \<and> fst (evaluateVariable prototypeContext stdHost ''pi'' JUndefined)
     = Inr (JNum (884279719003555 / 281474976710656))
   \<and> invokeCompiled stdHost (fst (compileVariable prototypeContext pi_name)) (JObj []) JUndefined
     = Some (Inr (JNum (884279719003555 / 281474976710656)))
   \<and> fst (evaluateVariable prototypeContext stdHost pi_name JUndefined)
     = Inr (JNum (884279719003555 / 281474976710656))
   \<and> invokeCompiled stdHost (fst (compileVariable prototypeContext ''e'')) (JObj []) JUndefined
     = Some (Inr (JNum (6121026514868073 / 2251799813685248)))
   \<and> fst (evaluateVariable prototypeContext stdHost ''e'' JUndefined)
     = Inr (JNum (6121026514868073 / 2251799813685248))"
proof -
  have "getProp (Math stdHost) ''PI'' = JNum (884279719003555 / 281474976710656)"
    "getProp (Math stdHost) ''E'' = JNum (6121026514868073 / 2251799813685248)"
    by (simp_all add: stdHost_def stdMath_def getProp_def)
  then show ?thesis
    using constants_compile_then_invoke_agrees
        [of stdHost prototypeContext "JObj []" JUndefined JUndefined]
    by simp
qed

text \<open>
  The parts of C1 that hold for every name: compiling a name that is no constant and is
  defined in neither table returns the deferred-throw text and registers exactly one
  dependency, on the undefined name.
\<close>

lemma compileVariable_unresolved:
  "\<not> isConstantName n \<Longrightarrow> \<not> definedIn (eVars ctx) n \<Longrightarrow> \<not> definedIn (vars ctx) n \<Longrightarrow>
   compileVariable ctx n =
     (''(function(){throw new DG.VarReferenceError('' @ n @ '');})()'',
      ctx\<lparr>registered := registered ctx @ [unresolvedDependency n]\<rparr>)"
  by (simp add: compileVariable_def isConstantName_def registerDependency_def
      unresolvedDependency_def)

lemma createContextFunction_throw_x:
  "createContextFunction ''(function(){throw new DG.VarReferenceError(x);})()''
     = Some (EThrowNew VarReferenceErrorClass (EIdent ''x''))"
  by (simp add: createContextFunction_def parseFunctionBody_def parseExpression_def
      throwPrefix_def throwSuffix_def parsePath_def isIdentifierReference_def
      isIdentifierName_def identStart_def identPart_def notReferences_def parseErrorClass_def)

text \<open>
  C1 at the name \<^verbatim>\<open>x\<close>, on the prototype (no variable tables) and a host without a
  global \<^verbatim>\<open>x\<close>. Compilation returns the text
  \<^verbatim>\<open>(function(){throw new DG.VarReferenceError(x);})()\<close> and registers the one dependency.
  The name stands in the text without quotes, so invoking the function reads the
  identifier \<^verbatim>\<open>x\<close>: the invocation throws the engine's ReferenceError and not a
  VarReferenceError carrying the name.
\<close>

theorem unresolved_artifact_raises_ReferenceError_at_x:
  "\<not> isConstantName ''x''
   \<and> \<not> definedIn (eVars prototypeContext) ''x'' \<and> \<not> definedIn (vars prototypeContext) ''x''
   \<and> compileVariable prototypeContext ''x''
       = (''(function(){throw new DG.VarReferenceError(x);})()'',
          prototypeContext\<lparr>registered := [unresolvedDependency ''x'']\<rparr>)
   \<and> map_of (globals stdHost) ''x'' = None
   \<and> invokeCompiled stdHost (fst (compileVariable prototypeContext ''x'')) c e
       = Some (Inl (ReferenceError ''x''))"
proof -
  have n: "\<not> isConstantName ''x''"
    by (simp add: isConstantName_def pi_name_def)
  have d: "\<not> definedIn (eVars prototypeContext) ''x''" "\<not> definedIn (vars prototypeContext) ''x''"
    by (simp_all add: definedIn_def prototypeContext_def)
  have r: "registered prototypeContext = []"
    by (simp add: prototypeContext_def)
  have g: "map_of (globals stdHost) ''x'' = None"
    by (simp add: stdHost_def)
  have c: "compileVariable prototypeContext ''x''
       = (''(function(){throw new DG.VarReferenceError(x);})()'',
          prototypeContext\<lparr>registered := [unresolvedDependency ''x'']\<rparr>)"
    using compileVariable_unresolved [OF n d] r by simp
  have "invokeCompiled stdHost ''(function(){throw new DG.VarReferenceError(x);})()'' c e
       = Some (Inl (ReferenceError ''x''))"
    using g by (simp add: invokeCompiled_def createContextFunction_throw_x)
  with n d c g show ?thesis by simp
qed

text \<open>
  The part of C3 that holds: with an evaluation context that is \<^verbatim>\<open>undefined\<close>, or an object
  on which the name reads as \<^verbatim>\<open>undefined\<close>, evaluating a name that is no constant and is
  not defined in the instance table raises the unresolved-variable error with the name.
\<close>

lemma evaluateVariable_unresolved:
  "\<not> isConstantName n \<Longrightarrow> \<not> definedIn (vars ctx) n \<Longrightarrow>
   ev = JUndefined \<or> (\<exists>t. ev = JObj t \<and> getProp t n = JUndefined) \<Longrightarrow>
   evaluateVariable ctx h n ev = (Inl (VarReferenceError (JStr n)), ctx)"
  by (auto simp: evaluateVariable_def isConstantName_def definedIn_def split: option.splits)

text \<open>A falsy evaluation context other than \<^verbatim>\<open>undefined\<close> is returned as the value.\<close>

lemma evaluateVariable_falsy_context:
  "\<not> isConstantName n \<Longrightarrow> \<not> truthy ev \<Longrightarrow> ev \<noteq> JUndefined \<Longrightarrow>
   evaluateVariable ctx h n ev = (Inr ev, ctx)"
  by (simp add: evaluateVariable_def isConstantName_def)

text \<open>
  C3 at the evaluation context \<^verbatim>\<open>null\<close>: \<^verbatim>\<open>iEvalContext && iEvalContext[iName]\<close> is then
  \<^verbatim>\<open>null\<close>, which is not \<^verbatim>\<open>undefined\<close>, so the undefined name \<^verbatim>\<open>x\<close> evaluates to \<^verbatim>\<open>null\<close>
  and nothing is raised.
\<close>

theorem evaluateVariable_null_context_returns_null:
  "\<not> isConstantName ''x'' \<and> \<not> definedIn (vars prototypeContext) ''x''
   \<and> evaluateVariable prototypeContext stdHost ''x'' JNull = (Inr JNull, prototypeContext)"
  by (simp add: isConstantName_def pi_name_def definedIn_def evaluateVariable_def)
     (simp add: prototypeContext_def)

end
